theory Spec2Isabelle
  imports Main "HOL-Library.Sublist"
begin

section \<open>Service worker (sw.js): data model\<close>

text \<open>
  The cache generation names and the three pattern lists of \<^verbatim>\<open>sw.js\<close>, lines 6-47.
\<close>

definition STATIC_CACHE :: string where
  "STATIC_CACHE = ''static-v2.0.0''"

definition DYNAMIC_CACHE :: string where
  "DYNAMIC_CACHE = ''dynamic-v2.0.0''"

definition API_CACHE :: string where
  "API_CACHE = ''api-v2.0.0''"

definition STATIC_ASSETS :: "string list" where
  "STATIC_ASSETS =
    [''/'',
     ''/index.html'',
     ''/assets/css/style.css'',
     ''/assets/js/app.js'',
     ''/assets/js/main.js'',
     ''/assets/js/modules/config.js'',
     ''/assets/js/modules/utils.js'',
     ''/assets/js/modules/background.js'',
     ''/assets/js/modules/api.js'',
     ''/assets/js/modules/ui.js'',
     ''/assets/img/logo-optimized.png'',
     ''/assets/img/favicon.ico'',
     ''/assets/img/mouse.png'',
     ''/assets/fonts/AlimamaDaoLiTi-Regular.woff2'',
     ''/assets/sounds/click-blank.wav'',
     ''/assets/sounds/click-btn.wav'',
     ''/assets/sounds/click-back.wav'',
     ''/manifest.json'']"

definition NETWORK_FIRST :: "string list" where
  "NETWORK_FIRST =
    [''https://v1.hitokoto.cn/'',
     ''https://api.uomg.com/'',
     ''https://bing.img.run/'',
     ''https://api.dujin.org/'',
     ''https://home-push-friend-link.952780.xyz/'']"

definition CACHE_FIRST :: "string list" where
  "CACHE_FIRST =
    [''https://cdnjs.cloudflare.com/'',
     ''https://cdn.jsdelivr.net/'',
     ''https://unpkg.com/'']"

text \<open>
  A response is observed through its status and its body; \<^verbatim>\<open>response.ok\<close> is the
  platform's test that the status lies in 200..299.
\<close>

record response =
  status :: nat
  body :: string

definition ok :: "response \<Rightarrow> bool" where
  "ok r = (200 \<le> status r \<and> status r \<le> 299)"

text \<open>
  A request as the worker reads it: \<^verbatim>\<open>request.url\<close> (already serialised by the
  platform, so \<^verbatim>\<open>new URL(request.url).href\<close> is the same string),
  \<^verbatim>\<open>request.method\<close> and \<^verbatim>\<open>request.destination\<close>.
\<close>

record request =
  url :: string
  http_method :: string
  destination :: string

text \<open>
  What awaiting a promise gives: a value, a thrown error, or nothing at all when the
  promise never settles.
\<close>

datatype error = TypeError | AbortError

datatype 'a promise = Resolved 'a | Rejected error | Pending

subsection \<open>The cache storage\<close>

text \<open>
  One cache is the list of its entries, keyed by request URL. \<^verbatim>\<open>caches\<close> is the
  list of the named caches in creation order, which is the order of
  \<^verbatim>\<open>caches.keys()\<close> and the order in which \<^verbatim>\<open>caches.match\<close> searches.
\<close>

type_synonym cache = "(string \<times> response) list"

type_synonym cache_storage = "(string \<times> cache) list"

definition cache_match :: "cache \<Rightarrow> string \<Rightarrow> response option" where
  "cache_match c k = map_of c k"

definition cache_put :: "cache \<Rightarrow> string \<Rightarrow> response \<Rightarrow> cache" where
  "cache_put c k r = filter (\<lambda>e. fst e \<noteq> k) c @ [(k, r)]"

definition caches_keys :: "cache_storage \<Rightarrow> string list" where
  "caches_keys reg = map fst reg"

definition caches_open :: "cache_storage \<Rightarrow> string \<Rightarrow> cache_storage" where
  "caches_open reg name = (if name \<in> set (caches_keys reg) then reg else reg @ [(name, [])])"

definition caches_delete :: "cache_storage \<Rightarrow> string \<Rightarrow> cache_storage" where
  "caches_delete reg name = filter (\<lambda>g. fst g \<noteq> name) reg"

text \<open>\<^verbatim>\<open>caches.match(request)\<close>: the first hit over all caches, in creation order.\<close>

fun caches_match :: "cache_storage \<Rightarrow> string \<Rightarrow> response option" where
  "caches_match [] k = None"
| "caches_match (g # reg) k =
     (case cache_match (snd g) k of
        Some r \<Rightarrow> Some r
      | None \<Rightarrow> caches_match reg k)"

text \<open>
  \<^verbatim>\<open>caches.open(name).then(cache => cache.put(request, response))\<close>: the cache is
  created when absent, and the entry replaces any older one for the same key.
\<close>

definition open_put :: "cache_storage \<Rightarrow> string \<Rightarrow> string \<Rightarrow> response \<Rightarrow> cache_storage" where
  "open_put reg name k r =
     map (\<lambda>g. if fst g = name then (fst g, cache_put (snd g) k r) else g) (caches_open reg name)"

text \<open>The entries of the cache called \<open>name\<close>; a cache that does not exist has none.\<close>

definition generation :: "cache_storage \<Rightarrow> string \<Rightarrow> cache" where
  "generation reg name = (case map_of reg name of Some c \<Rightarrow> c | None \<Rightarrow> [])"

subsection \<open>Activation\<close>

text \<open>
  The activate listener, lines 74-97: every name of \<^verbatim>\<open>caches.keys()\<close> that is none of
  the three current names is deleted, in the order of the listing, and then the worker
  claims the open pages. \<open>deleted\<close> records the calls of \<^verbatim>\<open>caches.delete\<close>.
\<close>

record activation =
  deleted :: "string list"
  registry :: cache_storage
  settled :: "unit promise"
  claimed :: bool

definition is_old_cache :: "string \<Rightarrow> bool" where
  "is_old_cache cacheName =
     (cacheName \<noteq> STATIC_CACHE \<and> cacheName \<noteq> DYNAMIC_CACHE \<and> cacheName \<noteq> API_CACHE)"

definition activate :: "cache_storage \<Rightarrow> activation" where
  "activate reg =
     (let cacheNames = caches_keys reg;
          olds = filter is_old_cache cacheNames
      in \<lparr>deleted = olds,
          registry = foldl caches_delete reg olds,
          settled = Resolved (),
          claimed = True\<rparr>)"

subsection \<open>The network\<close>

text \<open>
  What the network does with a GET of a URL: it answers after some milliseconds, it fails
  after some milliseconds (the promise of \<^verbatim>\<open>fetch\<close> rejects with a TypeError), or
  it stays silent for ever.
\<close>

datatype net_outcome = Responds nat response | Fails nat | Silent

type_synonym network = "string \<Rightarrow> net_outcome"

definition fetch :: "network \<Rightarrow> string \<Rightarrow> response promise" where
  "fetch net u =
     (case net u of
        Responds t r \<Rightarrow> Resolved r
      | Fails t \<Rightarrow> Rejected TypeError
      | Silent \<Rightarrow> Pending)"

text \<open>
  \<^verbatim>\<open>fetch(request, {signal})\<close> with \<^verbatim>\<open>setTimeout(() => controller.abort(), timeout)\<close>,
  lines 165-172: whatever the network has not delivered when the timer fires is
  abandoned, and the promise rejects with an AbortError.
\<close>

definition fetch_with_deadline :: "network \<Rightarrow> string \<Rightarrow> nat \<Rightarrow> response promise" where
  "fetch_with_deadline net u timeout =
     (case net u of
        Responds t r \<Rightarrow> if t < timeout then Resolved r else Rejected AbortError
      | Fails t \<Rightarrow> if t < timeout then Rejected TypeError else Rejected AbortError
      | Silent \<Rightarrow> Rejected AbortError)"

subsection \<open>Request tests\<close>

text \<open>\<^verbatim>\<open>url.includes(pattern)\<close> and \<^verbatim>\<open>url.endsWith(asset)\<close>.\<close>

fun includes_str :: "string \<Rightarrow> string \<Rightarrow> bool" where
  "includes_str [] pattern = (pattern = [])"
| "includes_str (c # u) pattern = (prefix pattern (c # u) \<or> includes_str u pattern)"

definition endsWith :: "string \<Rightarrow> string \<Rightarrow> bool" where
  "endsWith u asset = prefix (rev asset) (rev u)"

definition isAPIRequest :: "string \<Rightarrow> bool" where
  "isAPIRequest u = list_ex (\<lambda>pattern. includes_str u pattern) NETWORK_FIRST"

definition isCDNRequest :: "string \<Rightarrow> bool" where
  "isCDNRequest u = list_ex (\<lambda>pattern. includes_str u pattern) CACHE_FIRST"

definition isStaticAsset :: "string \<Rightarrow> bool" where
  "isStaticAsset u = list_ex (\<lambda>asset. endsWith u asset) STATIC_ASSETS"

text \<open>\<^verbatim>\<open>new URL(request.url).protocol\<close>: the scheme with its colon.\<close>

definition protocol :: "string \<Rightarrow> string" where
  "protocol u = takeWhile (\<lambda>c. c \<noteq> CHR '':'') u @ '':''"

subsection \<open>Fetch strategies\<close>

text \<open>
  Every strategy returns what the caller awaits together with the cache storage once the
  writes it started have landed. \<^verbatim>\<open>cache.put\<close> is not awaited by the caller, and the
  background refresh is not awaited either: the storage returned is the one after they
  have run.
\<close>

definition networkFirstWithTimeout ::
  "network \<Rightarrow> cache_storage \<Rightarrow> request \<Rightarrow> string \<Rightarrow> nat \<Rightarrow> response promise \<times> cache_storage" where
  "networkFirstWithTimeout net reg req cacheName timeout =
     (case fetch_with_deadline net (url req) timeout of
        Resolved r \<Rightarrow>
          (Resolved r, if ok r then open_put reg cacheName (url req) r else reg)
      | Rejected e \<Rightarrow>
          (case caches_match reg (url req) of
             Some cachedResponse \<Rightarrow> (Resolved cachedResponse, reg)
           | None \<Rightarrow> (Rejected e, reg))
      | Pending \<Rightarrow> (Pending, reg))"

definition updateCacheInBackground ::
  "network \<Rightarrow> cache_storage \<Rightarrow> request \<Rightarrow> string \<Rightarrow> cache_storage" where
  "updateCacheInBackground net reg req cacheName =
     (case fetch net (url req) of
        Resolved r \<Rightarrow> if ok r then open_put reg cacheName (url req) r else reg
      | Rejected e \<Rightarrow> reg
      | Pending \<Rightarrow> reg)"

definition cacheFirstWithNetworkFallback ::
  "network \<Rightarrow> cache_storage \<Rightarrow> request \<Rightarrow> string \<Rightarrow> response promise \<times> cache_storage" where
  "cacheFirstWithNetworkFallback net reg req cacheName =
     (case caches_match reg (url req) of
        Some cachedResponse \<Rightarrow>
          (Resolved cachedResponse, updateCacheInBackground net reg req cacheName)
      | None \<Rightarrow>
          (case fetch net (url req) of
             Resolved r \<Rightarrow>
               (Resolved r, if ok r then open_put reg cacheName (url req) r else reg)
           | Rejected e \<Rightarrow> (Rejected e, reg)
           | Pending \<Rightarrow> (Pending, reg)))"

definition networkFirstWithCacheFallback ::
  "network \<Rightarrow> cache_storage \<Rightarrow> request \<Rightarrow> string \<Rightarrow> response promise \<times> cache_storage" where
  "networkFirstWithCacheFallback net reg req cacheName =
     (case fetch net (url req) of
        Resolved r \<Rightarrow>
          (Resolved r, if ok r then open_put reg cacheName (url req) r else reg)
      | Rejected e \<Rightarrow>
          (case caches_match reg (url req) of
             Some cachedResponse \<Rightarrow> (Resolved cachedResponse, reg)
           | None \<Rightarrow> (Rejected e, reg))
      | Pending \<Rightarrow> (Pending, reg))"

subsection \<open>Offline fallback\<close>

definition offline_html :: string where
  "offline_html = concat [
      ''<!DOCTYPE html>'',
      [CHR 0x0A],
      ''        <html>'',
      [CHR 0x0A],
      ''        <head>'',
      [CHR 0x0A],
      ''            <title>'',
      [CHR 0xE7, CHR 0xA6, CHR 0xBB, CHR 0xE7, CHR 0xBA, CHR 0xBF, CHR 0xE6, CHR 0xA8],
      [CHR 0xA1, CHR 0xE5, CHR 0xBC, CHR 0x8F],
      ''</title>'',
      [CHR 0x0A],
      ''            <meta charset='',
      [CHR 0x22],
      ''utf-8'',
      [CHR 0x22],
      ''>'',
      [CHR 0x0A],
      ''            <style>'',
      [CHR 0x0A],
      ''                body { '',
      [CHR 0x0A],
      ''                    font-family: Arial, sans-serif; '',
      [CHR 0x0A],
      ''                    text-align: center; '',
      [CHR 0x0A],
      ''                    padding: 50px; '',
      [CHR 0x0A],
      ''                    background: #121212; '',
      [CHR 0x0A],
      ''                    color: #fff; '',
      [CHR 0x0A],
      ''                }'',
      [CHR 0x0A],
      ''                .offline { '',
      [CHR 0x0A],
      ''                    max-width: 400px; '',
      [CHR 0x0A],
      ''                    margin: 0 auto; '',
      [CHR 0x0A],
      ''                }'',
      [CHR 0x0A],
      ''            </style>'',
      [CHR 0x0A],
      ''        </head>'',
      [CHR 0x0A],
      ''        <body>'',
      [CHR 0x0A],
      ''            <div class='',
      [CHR 0x22],
      ''offline'',
      [CHR 0x22],
      ''>'',
      [CHR 0x0A],
      ''                <h1>'',
      [CHR 0xF0, CHR 0x9F, CHR 0x94, CHR 0x8C],
      '' '',
      [CHR 0xE7, CHR 0xA6, CHR 0xBB, CHR 0xE7, CHR 0xBA, CHR 0xBF, CHR 0xE6, CHR 0xA8],
      [CHR 0xA1, CHR 0xE5, CHR 0xBC, CHR 0x8F],
      ''</h1>'',
      [CHR 0x0A],
      ''                <p>'',
      [CHR 0xE5, CHR 0xBD, CHR 0x93, CHR 0xE5, CHR 0x89, CHR 0x8D, CHR 0xE7, CHR 0xBD],
      [CHR 0x91, CHR 0xE7, CHR 0xBB, CHR 0x9C, CHR 0xE4, CHR 0xB8, CHR 0x8D, CHR 0xE5],
      [CHR 0x8F, CHR 0xAF, CHR 0xE7, CHR 0x94, CHR 0xA8, CHR 0xEF, CHR 0xBC, CHR 0x8C],
      [CHR 0xE8, CHR 0xAF, CHR 0xB7, CHR 0xE6, CHR 0xA3, CHR 0x80, CHR 0xE6, CHR 0x9F],
      [CHR 0xA5, CHR 0xE7, CHR 0xBD, CHR 0x91, CHR 0xE7, CHR 0xBB, CHR 0x9C, CHR 0xE8],
      [CHR 0xBF, CHR 0x9E, CHR 0xE6, CHR 0x8E, CHR 0xA5, CHR 0xE5, CHR 0x90, CHR 0x8E],
      [CHR 0xE9, CHR 0x87, CHR 0x8D, CHR 0xE8, CHR 0xAF, CHR 0x95, CHR 0xE3, CHR 0x80],
      [CHR 0x82],
      ''</p>'',
      [CHR 0x0A],
      ''                <button onclick='',
      [CHR 0x22],
      ''location.reload()'',
      [CHR 0x22],
      ''>'',
      [CHR 0xE9, CHR 0x87, CHR 0x8D, CHR 0xE6, CHR 0x96, CHR 0xB0, CHR 0xE5, CHR 0x8A],
      [CHR 0xA0, CHR 0xE8, CHR 0xBD, CHR 0xBD],
      ''</button>'',
      [CHR 0x0A],
      ''            </div>'',
      [CHR 0x0A],
      ''        </body>'',
      [CHR 0x0A],
      ''        </html>'']"

text \<open>\<^verbatim>\<open>new Response(html, {headers})\<close> has the default status 200.\<close>

definition offline_page :: response where
  "offline_page = \<lparr>status = 200, body = offline_html\<rparr>"

text \<open>
  A relative URL such as \<^verbatim>\<open>'/'\<close> is resolved against the origin the worker is served
  from, \<open>base\<close>.
\<close>

definition resolve :: "string \<Rightarrow> string \<Rightarrow> string" where
  "resolve base path = base @ path"

definition getOfflineFallback :: "string \<Rightarrow> cache_storage \<Rightarrow> request \<Rightarrow> response" where
  "getOfflineFallback base reg req =
     (if destination req = ''document''
      then (case caches_match reg (resolve base ''/'') of
              Some cachedIndex \<Rightarrow> cachedIndex
            | None \<Rightarrow> offline_page)
      else offline_page)"

subsection \<open>Request handling\<close>

text \<open>The body of the \<^verbatim>\<open>try\<close> block of \<^verbatim>\<open>handleRequest\<close>, lines 130-151.\<close>

definition handleRequest_try ::
  "network \<Rightarrow> cache_storage \<Rightarrow> request \<Rightarrow> response promise \<times> cache_storage" where
  "handleRequest_try net reg req =
     (if isAPIRequest (url req) then networkFirstWithTimeout net reg req API_CACHE 3000
      else if isCDNRequest (url req) then cacheFirstWithNetworkFallback net reg req DYNAMIC_CACHE
      else if isStaticAsset (url req) then cacheFirstWithNetworkFallback net reg req STATIC_CACHE
      else if destination req = ''document''
        then networkFirstWithCacheFallback net reg req STATIC_CACHE
      else cacheFirstWithNetworkFallback net reg req DYNAMIC_CACHE)"

text \<open>The \<^verbatim>\<open>catch\<close> block, lines 153-156: any error becomes the offline fallback.\<close>

definition catch_offline ::
  "string \<Rightarrow> request \<Rightarrow> response promise \<times> cache_storage \<Rightarrow> response promise \<times> cache_storage" where
  "catch_offline base req res =
     (case fst res of
        Rejected e \<Rightarrow> (Resolved (getOfflineFallback base (snd res) req), snd res)
      | Resolved r \<Rightarrow> res
      | Pending \<Rightarrow> res)"

definition handleRequest ::
  "network \<Rightarrow> string \<Rightarrow> cache_storage \<Rightarrow> request \<Rightarrow> response promise \<times> cache_storage" where
  "handleRequest net base reg req = catch_offline base req (handleRequest_try net reg req)"

text \<open>
  The fetch listener, lines 102-119. Returning without \<^verbatim>\<open>event.respondWith\<close> leaves
  the request to the browser, which sends it to the network without the worker.
\<close>

datatype fetch_event = PassThrough | RespondWith "response promise"

definition fetch_listener ::
  "network \<Rightarrow> string \<Rightarrow> cache_storage \<Rightarrow> request \<Rightarrow> fetch_event \<times> cache_storage" where
  "fetch_listener net base reg req =
     (if http_method req \<noteq> ''GET'' then (PassThrough, reg)
      else if protocol (url req) = ''chrome-extension:'' then (PassThrough, reg)
      else (RespondWith (fst (handleRequest net base reg req)),
            snd (handleRequest net base reg req)))"

subsection \<open>Installation\<close>

text \<open>
  \<^verbatim>\<open>cache.addAll(urls)\<close> is the platform's batch: every URL is fetched, and the
  responses are stored only when every one of them arrived with a successful status;
  otherwise the promise rejects with a TypeError and the cache is left as it was.
\<close>

definition fetch_failed :: "response promise \<Rightarrow> bool" where
  "fetch_failed p = (case p of Resolved r \<Rightarrow> \<not> ok r | Rejected e \<Rightarrow> True | Pending \<Rightarrow> False)"

definition store_fetched :: "cache \<Rightarrow> string \<times> response promise \<Rightarrow> cache" where
  "store_fetched c kp = (case snd kp of Resolved r \<Rightarrow> cache_put c (fst kp) r | _ \<Rightarrow> c)"

definition cache_addAll ::
  "network \<Rightarrow> string \<Rightarrow> cache \<Rightarrow> string list \<Rightarrow> unit promise \<times> cache" where
  "cache_addAll net base c assets =
     (let fetched = map (\<lambda>a. (resolve base a, fetch net (resolve base a))) assets
      in if list_ex (\<lambda>kp. fetch_failed (snd kp)) fetched then (Rejected TypeError, c)
         else if list_ex (\<lambda>kp. snd kp = Pending) fetched then (Pending, c)
         else (Resolved (), foldl store_fetched c fetched))"

text \<open>
  The install listener, lines 52-69. \<open>waitUntil\<close> is the promise handed to
  \<^verbatim>\<open>event.waitUntil\<close>: the chain ends in a \<^verbatim>\<open>catch\<close> that logs the error and
  returns, so a rejected batch still settles the chain as resolved; \<open>skipWaiting\<close>
  tells whether \<^verbatim>\<open>self.skipWaiting()\<close> was called.
\<close>

record installation =
  waitUntil :: "unit promise"
  skipWaiting :: bool
  caches_after :: cache_storage

definition install :: "network \<Rightarrow> string \<Rightarrow> cache_storage \<Rightarrow> installation" where
  "install net base reg =
     (let opened = caches_open reg STATIC_CACHE;
          added = cache_addAll net base (generation opened STATIC_CACHE) STATIC_ASSETS
      in case fst added of
           Resolved u \<Rightarrow>
             \<lparr>waitUntil = Resolved (), skipWaiting = True,
              caches_after =
                map (\<lambda>g. if fst g = STATIC_CACHE then (fst g, snd added) else g) opened\<rparr>
         | Rejected e \<Rightarrow>
             \<lparr>waitUntil = Resolved (), skipWaiting = False, caches_after = opened\<rparr>
         | Pending \<Rightarrow>
             \<lparr>waitUntil = Pending, skipWaiting = False, caches_after = opened\<rparr>)"

text \<open>
  What the platform makes of the promise given to \<^verbatim>\<open>waitUntil\<close> of the install event:
  the worker is installed when it resolves and discarded when it rejects.
\<close>

datatype worker_state = Installing | Installed | Redundant

definition state_after_install :: "unit promise \<Rightarrow> worker_state" where
  "state_after_install p =
     (case p of Resolved u \<Rightarrow> Installed | Rejected e \<Rightarrow> Redundant | Pending \<Rightarrow> Installing)"


section \<open>Friend-link relay (the Cloudflare worker script)\<close>

text \<open>
  A JavaScript value is observed by the relay in three ways only: its truthiness
  (\<^verbatim>\<open>!v\<close>, \<^verbatim>\<open>v || d\<close>), its string conversion inside the template literal, and
  strict equality with a string literal. A string is kept as it is; any other value is
  kept as its truthiness and its string conversion.
\<close>

datatype jsval = JString string | JOther bool string

definition undefined_js :: jsval where
  "undefined_js = JOther False ''undefined''"

fun truthy :: "jsval \<Rightarrow> bool" where
  "truthy (JString s) = (s \<noteq> [])"
| "truthy (JOther t s) = t"

fun toString :: "jsval \<Rightarrow> string" where
  "toString (JString s) = s"
| "toString (JOther t s) = s"

text \<open>\<^verbatim>\<open>a || b\<close>\<close>

definition or_js :: "jsval \<Rightarrow> jsval \<Rightarrow> jsval" where
  "or_js a b = (if truthy a then a else b)"

text \<open>
  \<^verbatim>\<open>await request.json()\<close>: the body is not JSON, or it is \<^verbatim>\<open>null\<close> (which cannot
  be destructured), or it is a value whose properties can be read; a property that is
  absent reads as \<^verbatim>\<open>undefined\<close>.
\<close>

datatype json_body = InvalidJSON | JsonNull | JsonValue "string \<Rightarrow> jsval"

record relay_request =
  req_method :: string
  req_json :: json_body

record env =
  TG_BOT_TOKEN :: "string option"
  TG_CHAT_ID :: "string option"
  FEISHU_WEBHOOK :: "string option"

text \<open>\<^verbatim>\<open>!v\<close> of an environment variable: unset or the empty string.\<close>

definition missing :: "string option \<Rightarrow> bool" where
  "missing v = (case v of None \<Rightarrow> True | Some s \<Rightarrow> s = [])"

text \<open>What an environment variable contributes to a string: unset reads \<^verbatim>\<open>undefined\<close>.\<close>

definition env_string :: "string option \<Rightarrow> string" where
  "env_string v = (case v of None \<Rightarrow> ''undefined'' | Some s \<Rightarrow> s)"

record cors_response =
  cors_body :: "string option"
  cors_status :: nat
  cors_headers :: "(string \<times> string) list"

definition corsResponse :: "string option \<Rightarrow> nat \<Rightarrow> cors_response" where
  "corsResponse b st =
     \<lparr>cors_body = b, cors_status = st,
      cors_headers =
        [(''Access-Control-Allow-Origin'', ''*''),
         (''Access-Control-Allow-Methods'', ''POST, OPTIONS''),
         (''Access-Control-Allow-Headers'', ''Content-Type'')]\<rparr>"

text \<open>
  An outbound call of \<^verbatim>\<open>fetch\<close>. The body is the object given to
  \<^verbatim>\<open>JSON.stringify\<close>: \<^verbatim>\<open>{chat_id, text}\<close> for Telegram and
  \<^verbatim>\<open>{msg_type: 'text', content: {text}}\<close> for Feishu.
\<close>

datatype payload = TelegramMessage string string | FeishuText string

record outbound =
  out_url :: string
  out_method :: string
  out_headers :: "(string \<times> string) list"
  out_body :: payload

type_synonym upstream = "outbound \<Rightarrow> response promise"

datatype relay_result = Responded cors_response | Threw error | NeverSettled

text \<open>The literals of the script that are not ASCII, as their UTF-8 bytes.\<close>

definition msg_head :: string where
  "msg_head = concat [
      [CHR 0xE3, CHR 0x80, CHR 0x90, CHR 0xE5, CHR 0x8F, CHR 0x8B, CHR 0xE9, CHR 0x93],
      [CHR 0xBE, CHR 0xE7, CHR 0x94, CHR 0xB3, CHR 0xE8, CHR 0xAF, CHR 0xB7, CHR 0xE3],
      [CHR 0x80, CHR 0x91, CHR 0x0A, CHR 0xE7, CHR 0xAB, CHR 0x99, CHR 0xE7, CHR 0x82],
      [CHR 0xB9, CHR 0xE5, CHR 0x90, CHR 0x8D],
      '': '']"

definition msg_link :: string where
  "msg_link = concat [
      [CHR 0x0A, CHR 0xE9, CHR 0x93, CHR 0xBE, CHR 0xE6, CHR 0x8E, CHR 0xA5],
      '': '']"

definition msg_logo :: string where
  "msg_logo = concat [
      [CHR 0x0A],
      ''Logo: '']"

definition msg_desc :: string where
  "msg_desc = concat [
      [CHR 0x0A, CHR 0xE6, CHR 0x8F, CHR 0x8F, CHR 0xE8, CHR 0xBF, CHR 0xB0],
      '': '']"

definition none_text :: string where
  "none_text = concat [
      [CHR 0xE6, CHR 0x97, CHR 0xA0]]"

definition telegram_config_missing :: string where
  "telegram_config_missing = concat [
      ''Telegram'',
      [CHR 0xE9, CHR 0x85, CHR 0x8D, CHR 0xE7, CHR 0xBD, CHR 0xAE, CHR 0xE7, CHR 0xBC],
      [CHR 0xBA, CHR 0xE5, CHR 0xA4, CHR 0xB1]]"

definition feishu_config_missing :: string where
  "feishu_config_missing = concat [
      [CHR 0xE9, CHR 0xA3, CHR 0x9E, CHR 0xE4, CHR 0xB9, CHR 0xA6, CHR 0xE9, CHR 0x85],
      [CHR 0x8D, CHR 0xE7, CHR 0xBD, CHR 0xAE, CHR 0xE7, CHR 0xBC, CHR 0xBA, CHR 0xE5],
      [CHR 0xA4, CHR 0xB1]]"

definition unsupported_push_type :: string where
  "unsupported_push_type = concat [
      [CHR 0xE4, CHR 0xB8, CHR 0x8D, CHR 0xE6, CHR 0x94, CHR 0xAF, CHR 0xE6, CHR 0x8C],
      [CHR 0x81, CHR 0xE7, CHR 0x9A, CHR 0x84, CHR 0xE6, CHR 0x8E, CHR 0xA8, CHR 0xE9],
      [CHR 0x80, CHR 0x81, CHR 0xE6, CHR 0x96, CHR 0xB9, CHR 0xE5, CHR 0xBC, CHR 0x8F]]"

definition push_failed :: string where
  "push_failed = concat [
      [CHR 0xE6, CHR 0x8E, CHR 0xA8, CHR 0xE9, CHR 0x80, CHR 0x81, CHR 0xE5, CHR 0xA4],
      [CHR 0xB1, CHR 0xE8, CHR 0xB4, CHR 0xA5]]"

definition ok_true_json :: string where
  "ok_true_json = concat [
      ''{'',
      [CHR 0x22],
      ''ok'',
      [CHR 0x22],
      '':true}'']"

text \<open>The template literal of line 42.\<close>

definition format_msg :: "(string \<Rightarrow> jsval) \<Rightarrow> string" where
  "format_msg data =
     msg_head @ toString (data ''name'') @
     msg_link @ toString (data ''url'') @
     msg_logo @ toString (or_js (data ''logo'') (JString none_text)) @
     msg_desc @ toString (or_js (data ''desc'') (JString none_text))"

text \<open>Lines 71-75: what the relay answers once the provider has been called.\<close>

definition push_outcome :: "response promise \<Rightarrow> relay_result" where
  "push_outcome pushResult =
     (case pushResult of
        Resolved r \<Rightarrow>
          if ok r then Responded (corsResponse (Some ok_true_json) 200)
          else Responded (corsResponse (Some push_failed) 500)
      | Rejected e \<Rightarrow> Threw e
      | Pending \<Rightarrow> NeverSettled)"

text \<open>
  The handler \<^verbatim>\<open>fetch(request, env, ctx)\<close>, lines 23-76: the answer and the outbound
  calls made, in order.
\<close>

definition relay_fetch ::
  "upstream \<Rightarrow> env \<Rightarrow> relay_request \<Rightarrow> relay_result \<times> outbound list" where
  "relay_fetch up e request =
     (if req_method request = ''OPTIONS'' then (Responded (corsResponse None 204), [])
      else if req_method request \<noteq> ''POST''
        then (Responded (corsResponse (Some ''Method Not Allowed'') 405), [])
      else case req_json request of
        InvalidJSON \<Rightarrow> (Responded (corsResponse (Some ''Invalid JSON'') 400), [])
      | JsonNull \<Rightarrow> (Threw TypeError, [])
      | JsonValue data \<Rightarrow>
          if \<not> truthy (data ''name'') \<or> \<not> truthy (data ''url'') \<or> \<not> truthy (data ''pushType'')
          then (Responded (corsResponse (Some ''Missing required fields'') 400), [])
          else if data ''pushType'' = JString ''telegram'' then
            (if missing (TG_BOT_TOKEN e) \<or> missing (TG_CHAT_ID e)
             then (Responded (corsResponse (Some telegram_config_missing) 500), [])
             else
               let tgUrl = ''https://api.telegram.org/bot'' @ env_string (TG_BOT_TOKEN e) @ ''/sendMessage'';
                   call = \<lparr>out_url = tgUrl, out_method = ''POST'',
                           out_headers = [(''Content-Type'', ''application/json'')],
                           out_body = TelegramMessage (env_string (TG_CHAT_ID e)) (format_msg data)\<rparr>
               in (push_outcome (up call), [call]))
          else if data ''pushType'' = JString ''feishu'' then
            (if missing (FEISHU_WEBHOOK e)
             then (Responded (corsResponse (Some feishu_config_missing) 500), [])
             else
               let call = \<lparr>out_url = env_string (FEISHU_WEBHOOK e), out_method = ''POST'',
                           out_headers = [(''Content-Type'', ''application/json'')],
                           out_body = FeishuText (format_msg data)\<rparr>
               in (push_outcome (up call), [call]))
          else (Responded (corsResponse (Some unsupported_push_type) 400), []))"


section \<open>Vocabulary of the specification\<close>

text \<open>
  The routing tiers of the specification's request classifier, and what serving a request
  by a tier means in terms of the worker's strategies and generations.
\<close>

datatype tier =
  ApiNetworkFirst | CdnCacheFirst | StaticCacheFirst | DocumentNetworkFirst | DynamicCacheFirst

datatype routing = BypassCache | Serve tier

definition run_tier ::
  "tier \<Rightarrow> network \<Rightarrow> cache_storage \<Rightarrow> request \<Rightarrow> response promise \<times> cache_storage" where
  "run_tier t net reg req =
     (case t of
        ApiNetworkFirst \<Rightarrow> networkFirstWithTimeout net reg req API_CACHE 3000
      | CdnCacheFirst \<Rightarrow> cacheFirstWithNetworkFallback net reg req DYNAMIC_CACHE
      | StaticCacheFirst \<Rightarrow> cacheFirstWithNetworkFallback net reg req STATIC_CACHE
      | DocumentNetworkFirst \<Rightarrow> networkFirstWithCacheFallback net reg req STATIC_CACHE
      | DynamicCacheFirst \<Rightarrow> cacheFirstWithNetworkFallback net reg req DYNAMIC_CACHE)"

definition served_by ::
  "routing \<Rightarrow> network \<Rightarrow> string \<Rightarrow> cache_storage \<Rightarrow> request \<Rightarrow> fetch_event \<times> cache_storage" where
  "served_by rt net base reg req =
     (case rt of
        BypassCache \<Rightarrow> (PassThrough, reg)
      | Serve t \<Rightarrow>
          (RespondWith (fst (catch_offline base req (run_tier t net reg req))),
           snd (catch_offline base req (run_tier t net reg req))))"

text \<open>
  The six rules as the specification words them (section 4.2), first match winning; a URL
  matches a pattern list by the worker's own tests.
\<close>

definition spec_classify :: "request \<Rightarrow> routing" where
  "spec_classify req =
     (if http_method req \<noteq> ''GET'' then BypassCache
      else if isAPIRequest (url req) then Serve ApiNetworkFirst
      else if isCDNRequest (url req) then Serve CdnCacheFirst
      else if isStaticAsset (url req) then Serve StaticCacheFirst
      else if destination req = ''document'' then Serve DocumentNetworkFirst
      else Serve DynamicCacheFirst)"

text \<open>The same rules with the worker's second guard, on the URL's scheme, after the first.\<close>

definition classify_guarded :: "request \<Rightarrow> routing" where
  "classify_guarded req =
     (if http_method req \<noteq> ''GET'' then BypassCache
      else if protocol (url req) = ''chrome-extension:'' then BypassCache
      else if isAPIRequest (url req) then Serve ApiNetworkFirst
      else if isCDNRequest (url req) then Serve CdnCacheFirst
      else if isStaticAsset (url req) then Serve StaticCacheFirst
      else if destination req = ''document'' then Serve DocumentNetworkFirst
      else Serve DynamicCacheFirst)"

text \<open>
  The path of a hierarchical URL (\<^verbatim>\<open>new URL(u).pathname\<close>): what follows the
  authority, up to the query or the fragment.
\<close>

definition pathname :: "string \<Rightarrow> string" where
  "pathname u =
     takeWhile (\<lambda>c. c \<noteq> CHR ''?'' \<and> c \<noteq> CHR ''#'')
       (dropWhile (\<lambda>c. c \<noteq> CHR ''/'') (drop 2 (dropWhile (\<lambda>c. c \<noteq> CHR ''/'') u)))"

text \<open>Every stored entry of the storage: generation name, request key, response.\<close>

definition entries :: "cache_storage \<Rightarrow> (string \<times> string \<times> response) list" where
  "entries reg = concat (map (\<lambda>g. map (\<lambda>e. (fst g, fst e, snd e)) (snd g)) reg)"

definition all_ok :: "cache_storage \<Rightarrow> bool" where
  "all_ok reg = list_all (\<lambda>e. ok (snd (snd e))) (entries reg)"

text \<open>
  What the network gives the handler for a request (with the 3000 ms deadline for an API
  request), and the requests whose strategy asks the network before the cache.
\<close>

definition network_answer :: "network \<Rightarrow> request \<Rightarrow> response promise" where
  "network_answer net req =
     (if isAPIRequest (url req) then fetch_with_deadline net (url req) 3000
      else fetch net (url req))"

definition network_first :: "request \<Rightarrow> bool" where
  "network_first req =
     (isAPIRequest (url req) \<or>
      (\<not> isCDNRequest (url req) \<and> \<not> isStaticAsset (url req) \<and> destination req = ''document''))"

text \<open>Concrete networks and requests used to run the model.\<close>

definition net_down :: network where
  "net_down u = Fails 10"

definition net_up :: "response \<Rightarrow> network" where
  "net_up r u = Responds 10 r"

definition net_slow :: "response \<Rightarrow> network" where
  "net_slow r u = Responds 5000 r"

definition site :: string where
  "site = ''https://deer.example''"

definition r200 :: response where
  "r200 = \<lparr>status = 200, body = ''fresh''\<rparr>"

definition r_old :: response where
  "r_old = \<lparr>status = 200, body = ''stale''\<rparr>"

definition ext_req :: request where
  "ext_req = \<lparr>url = ''chrome-extension://abcdefgh/popup.js'', http_method = ''GET'',
              destination = ''script''\<rparr>"

definition foreign_req :: request where
  "foreign_req = \<lparr>url = ''https://other.example/blog/manifest.json'', http_method = ''GET'',
                  destination = ''''\<rparr>"

definition slash_req :: request where
  "slash_req = \<lparr>url = ''https://other.example/blog/'', http_method = ''GET'',
                destination = ''''\<rparr>"

definition img_req :: request where
  "img_req = \<lparr>url = ''https://deer.example/photos/cat.png'', http_method = ''GET'',
              destination = ''image''\<rparr>"

definition page_url :: string where
  "page_url = ''https://deer.example/about.html''"


definition page_nav_req :: request where
  "page_nav_req = \<lparr>url = page_url, http_method = ''GET'', destination = ''document''\<rparr>"

definition api_req :: request where
  "api_req = \<lparr>url = ''https://v1.hitokoto.cn/?c=a'', http_method = ''GET'', destination = ''''\<rparr>"

definition net_one_missing :: network where
  "net_one_missing u =
     (if u = ''https://deer.example/assets/js/main.js'' then Fails 10 else Responds 10 r200)"

definition blog_form :: "string \<Rightarrow> string \<Rightarrow> jsval" where
  "blog_form pushType k =
     (if k = ''name'' then JString ''Blog''
      else if k = ''url'' then JString ''https://x.example''
      else if k = ''pushType'' then JString pushType
      else undefined_js)"

definition post_blog :: "string \<Rightarrow> relay_request" where
  "post_blog pushType = \<lparr>req_method = ''POST'', req_json = JsonValue (blog_form pushType)\<rparr>"

definition env_telegram :: env where
  "env_telegram = \<lparr>TG_BOT_TOKEN = Some ''123:abc'', TG_CHAT_ID = Some ''42'', FEISHU_WEBHOOK = None\<rparr>"

definition up_ok :: upstream where
  "up_ok call = Resolved r200"

definition reg_after_deploy :: cache_storage where
  "reg_after_deploy =
     [(''static-v1.0.0'', [(''https://deer.example/'', r_old)]),
      (STATIC_CACHE, [(''https://deer.example/'', r200)]),
      (''deer-homepage-v1'', []),
      (API_CACHE, [])]"


section \<open>Properties of the service worker\<close>

lemma foldl_caches_delete:
  "foldl caches_delete reg ds = filter (\<lambda>g. fst g \<notin> set ds) reg"
proof (induction ds arbitrary: reg)
  case Nil
  show ?case by simp
next
  case (Cons d ds)
  have "foldl caches_delete (caches_delete reg d) ds
        = filter (\<lambda>g. fst g \<notin> set ds) (caches_delete reg d)"
    by (rule Cons.IH)
  also have "\<dots> = filter (\<lambda>g. fst g \<notin> set (d # ds)) reg"
    by (simp add: caches_delete_def conj_commute)
  finally show ?case by simp
qed

lemma activate_deleted:
  "deleted (activate reg) = filter is_old_cache (caches_keys reg)"
  by (simp add: activate_def Let_def)

lemma activate_registry:
  "registry (activate reg) = filter (\<lambda>g. \<not> is_old_cache (fst g)) reg"
proof -
  have "filter (\<lambda>g. fst g \<notin> set (filter is_old_cache (map fst reg))) reg
        = filter (\<lambda>g. \<not> is_old_cache (fst g)) reg"
    by (rule filter_cong) auto
  then show ?thesis
    by (simp add: activate_def Let_def caches_keys_def foldl_caches_delete)
qed

lemma activate_twice_deleted:
  "deleted (activate (registry (activate reg))) = []"
  by (simp add: activate_deleted activate_registry caches_keys_def filter_map o_def)

text \<open>
  Claim C7. Activating again with the same three current names deletes nothing, raises no
  error and leaves the registry exactly as the first activation left it.
\<close>

theorem activate_idempotent:
  "activate (registry (activate reg)) =
     \<lparr>deleted = [], registry = registry (activate reg), settled = Resolved (), claimed = True\<rparr>"
proof -
  let ?r1 = "registry (activate reg)"
  have d: "deleted (activate ?r1) = []"
    by (rule activate_twice_deleted)
  have "filter is_old_cache (caches_keys ?r1) = []"
    using d by (simp add: activate_deleted)
  then show ?thesis
    by (simp add: activate_def Let_def)
qed

theorem activate_idempotent_witness:
  "activate reg_after_deploy =
     \<lparr>deleted = [''static-v1.0.0'', ''deer-homepage-v1''],
      registry = [(STATIC_CACHE, [(''https://deer.example/'', r200)]), (API_CACHE, [])],
      settled = Resolved (), claimed = True\<rparr> \<and>
   activate [(STATIC_CACHE, [(''https://deer.example/'', r200)]), (API_CACHE, [])] =
     \<lparr>deleted = [],
      registry = [(STATIC_CACHE, [(''https://deer.example/'', r200)]), (API_CACHE, [])],
      settled = Resolved (), claimed = True\<rparr>"
proof -
  have first: "activate reg_after_deploy =
     \<lparr>deleted = [''static-v1.0.0'', ''deer-homepage-v1''],
      registry = [(STATIC_CACHE, [(''https://deer.example/'', r200)]), (API_CACHE, [])],
      settled = Resolved (), claimed = True\<rparr>"
    by (simp add: activate_def Let_def reg_after_deploy_def caches_keys_def is_old_cache_def
        caches_delete_def STATIC_CACHE_def DYNAMIC_CACHE_def API_CACHE_def)
  from activate_idempotent [of reg_after_deploy] show ?thesis
    unfolding first by simp
qed

subsection \<open>Routing\<close>

lemma ext_req_tests:
  "\<not> isAPIRequest (url ext_req)" "\<not> isCDNRequest (url ext_req)" "\<not> isStaticAsset (url ext_req)"
  "protocol (url ext_req) = ''chrome-extension:''"
  by (simp_all add: ext_req_def isAPIRequest_def NETWORK_FIRST_def isCDNRequest_def CACHE_FIRST_def
      isStaticAsset_def STATIC_ASSETS_def endsWith_def protocol_def)

lemma spec_classify_ext_req: "spec_classify ext_req = Serve DynamicCacheFirst"
  using ext_req_tests by (simp add: spec_classify_def) (simp add: ext_req_def)

lemma served_dynamic_ext_req:
  "served_by (Serve DynamicCacheFirst) (net_up r200) site [] ext_req =
     (RespondWith (Resolved r200), [(DYNAMIC_CACHE, [(url ext_req, r200)])])"
  by (simp add: served_by_def run_tier_def cacheFirstWithNetworkFallback_def fetch_def net_up_def
      catch_offline_def ok_def r200_def open_put_def caches_open_def caches_keys_def cache_put_def)

text \<open>
  Claim C1, as stated, fails: a GET request for a \<^verbatim>\<open>chrome-extension:\<close> URL that
  matches no pattern falls under the last of the six rules (cache-first against the
  dynamic generation), yet the listener leaves it to the browser and stores nothing.
\<close>

theorem six_rules_counterexample:
  "spec_classify ext_req = Serve DynamicCacheFirst \<and>
   fetch_listener (net_up r200) site [] ext_req = (PassThrough, []) \<and>
   served_by (spec_classify ext_req) (net_up r200) site [] ext_req =
     (RespondWith (Resolved r200), [(DYNAMIC_CACHE, [(url ext_req, r200)])])"
proof -
  have "fetch_listener (net_up r200) site [] ext_req = (PassThrough, [])"
    using ext_req_tests(4) by (simp add: fetch_listener_def)
  then show ?thesis
    by (simp add: spec_classify_ext_req served_dynamic_ext_req)
qed

text \<open>
  Claim C1, amended. The listener applies seven rules in order, first match winning: a
  method other than GET bypasses the worker; a GET whose URL has the scheme
  \<^verbatim>\<open>chrome-extension:\<close> bypasses it too; then a URL containing a declared API
  pattern is served network-first with the 3000 ms deadline against the api generation; a
  URL containing a declared CDN pattern cache-first against the dynamic generation; a URL
  ending with a declared static asset cache-first against the static generation; a
  document destination network-first with cache fallback against the static generation;
  anything else cache-first against the dynamic generation. An error of the strategy is
  turned into the offline fallback.
\<close>

theorem fetch_listener_routing:
  "fetch_listener net base reg req = served_by (classify_guarded req) net base reg req"
  by (simp add: fetch_listener_def served_by_def classify_guarded_def handleRequest_def
      handleRequest_try_def run_tier_def)

theorem fetch_listener_routing_witness:
  "fetch_listener (net_up r200) site [] ext_req = (PassThrough, []) \<and>
   fetch_listener (net_up r200) site [] img_req =
     (RespondWith (Resolved r200), [(DYNAMIC_CACHE, [(url img_req, r200)])])"
proof -
  have a: "classify_guarded ext_req = BypassCache"
    using ext_req_tests(4) by (simp add: classify_guarded_def)
  have b: "classify_guarded img_req = Serve DynamicCacheFirst"
    by (simp add: classify_guarded_def img_req_def protocol_def isAPIRequest_def NETWORK_FIRST_def
        isCDNRequest_def CACHE_FIRST_def isStaticAsset_def STATIC_ASSETS_def endsWith_def)
  have c: "served_by (Serve DynamicCacheFirst) (net_up r200) site [] img_req =
     (RespondWith (Resolved r200), [(DYNAMIC_CACHE, [(url img_req, r200)])])"
    by (simp add: served_by_def run_tier_def cacheFirstWithNetworkFallback_def fetch_def net_up_def
      catch_offline_def ok_def r200_def open_put_def caches_open_def caches_keys_def cache_put_def)
  have d: "served_by BypassCache (net_up r200) site [] ext_req = (PassThrough, [])"
    by (simp add: served_by_def)
  show ?thesis
    using fetch_listener_routing [of "net_up r200" site "[]" ext_req]
      fetch_listener_routing [of "net_up r200" site "[]" img_req]
    by (simp add: a b c d)
qed

lemma static_route:
  assumes "http_method req = ''GET''" "protocol (url req) \<noteq> ''chrome-extension:''"
    "\<not> isAPIRequest (url req)" "\<not> isCDNRequest (url req)" "isStaticAsset (url req)"
  shows "fetch_listener net base reg req = served_by (Serve StaticCacheFirst) net base reg req"
  using assms
  by (simp add: fetch_listener_def served_by_def handleRequest_def handleRequest_try_def run_tier_def)

lemma foreign_req_tests:
  "http_method foreign_req = ''GET''" "protocol (url foreign_req) \<noteq> ''chrome-extension:''"
  "\<not> isAPIRequest (url foreign_req)" "\<not> isCDNRequest (url foreign_req)"
  "isStaticAsset (url foreign_req)" "pathname (url foreign_req) \<notin> set STATIC_ASSETS"
  "endsWith (url foreign_req) ''/manifest.json''"
  by (simp_all add: foreign_req_def isAPIRequest_def NETWORK_FIRST_def isCDNRequest_def CACHE_FIRST_def
      isStaticAsset_def STATIC_ASSETS_def endsWith_def protocol_def pathname_def)

lemma slash_req_tests:
  "http_method slash_req = ''GET''" "protocol (url slash_req) \<noteq> ''chrome-extension:''"
  "\<not> isAPIRequest (url slash_req)" "\<not> isCDNRequest (url slash_req)"
  "isStaticAsset (url slash_req)" "pathname (url slash_req) \<notin> set STATIC_ASSETS"
  "endsWith (url slash_req) ''/''"
  by (simp_all add: slash_req_def isAPIRequest_def NETWORK_FIRST_def isCDNRequest_def CACHE_FIRST_def
      isStaticAsset_def STATIC_ASSETS_def endsWith_def protocol_def pathname_def)

text \<open>
  Claim C10. The static test is a suffix test on the whole URL: there is a GET request,
  matching no API and no CDN pattern, whose path is no declared asset and which is served
  as a static asset all the same; one such URL ends with \<^verbatim>\<open>/manifest.json\<close> on
  another origin, another ends with \<^verbatim>\<open>/\<close>.
\<close>

theorem static_suffix_overmatch:
  "(\<exists>req. http_method req = ''GET'' \<and> endsWith (url req) ''/manifest.json'' \<and>
          \<not> isAPIRequest (url req) \<and> \<not> isCDNRequest (url req) \<and>
          pathname (url req) \<notin> set STATIC_ASSETS \<and>
          (\<forall>net base reg.
             fetch_listener net base reg req = served_by (Serve StaticCacheFirst) net base reg req)) \<and>
   (\<exists>req. http_method req = ''GET'' \<and> endsWith (url req) ''/'' \<and>
          \<not> isAPIRequest (url req) \<and> \<not> isCDNRequest (url req) \<and>
          pathname (url req) \<notin> set STATIC_ASSETS \<and>
          (\<forall>net base reg.
             fetch_listener net base reg req = served_by (Serve StaticCacheFirst) net base reg req))"
proof (intro conjI)
  show "\<exists>req. http_method req = ''GET'' \<and> endsWith (url req) ''/manifest.json'' \<and>
          \<not> isAPIRequest (url req) \<and> \<not> isCDNRequest (url req) \<and>
          pathname (url req) \<notin> set STATIC_ASSETS \<and>
          (\<forall>net base reg.
             fetch_listener net base reg req = served_by (Serve StaticCacheFirst) net base reg req)"
    using foreign_req_tests static_route [OF foreign_req_tests(1-5)]
    by (intro exI [of _ foreign_req]) blast
  show "\<exists>req. http_method req = ''GET'' \<and> endsWith (url req) ''/'' \<and>
          \<not> isAPIRequest (url req) \<and> \<not> isCDNRequest (url req) \<and>
          pathname (url req) \<notin> set STATIC_ASSETS \<and>
          (\<forall>net base reg.
             fetch_listener net base reg req = served_by (Serve StaticCacheFirst) net base reg req)"
    using slash_req_tests static_route [OF slash_req_tests(1-5)]
    by (intro exI [of _ slash_req]) blast
qed

subsection \<open>Only successful responses are stored\<close>

lemma entries_iff:
  "(n, k, r) \<in> set (entries reg) \<longleftrightarrow> (\<exists>c. (n, c) \<in> set reg \<and> (k, r) \<in> set c)"
  by (force simp: entries_def)

lemma cache_put_entry:
  "(k', r') \<in> set (cache_put c k r) \<Longrightarrow> (k', r') \<in> set c \<or> (k', r') = (k, r)"
  by (auto simp: cache_put_def)

lemma caches_open_entries:
  "entries (caches_open reg name) = entries reg"
  by (simp add: caches_open_def entries_def)

lemma open_put_entry:
  assumes "(n, k', r') \<in> set (entries (open_put reg name k r))"
  shows "(n, k', r') \<in> set (entries reg) \<or> (n, k', r') = (name, k, r)"
proof -
  let ?f = "\<lambda>g. if fst g = name then (fst g, cache_put (snd g) k r) else g"
  from assms obtain c where c: "(n, c) \<in> set (open_put reg name k r)" "(k', r') \<in> set c"
    by (auto simp: entries_iff)
  from c(1) obtain g where g: "g \<in> set (caches_open reg name)" "(n, c) = ?f g"
    by (auto simp: open_put_def)
  show ?thesis
  proof (cases "fst g = name")
    case True
    with g(2) have nc: "n = name" "c = cache_put (snd g) k r" by simp_all
    from c(2) nc(2) have "(k', r') \<in> set (snd g) \<or> (k', r') = (k, r)"
      using cache_put_entry by blast
    then show ?thesis
    proof
      assume old: "(k', r') \<in> set (snd g)"
      have "(fst g, k', r') \<in> set (entries (caches_open reg name))"
        unfolding entries_iff using g(1) old by (intro exI [of _ "snd g"]) simp
      then show ?thesis using True nc(1) by (simp add: caches_open_entries)
    next
      assume "(k', r') = (k, r)"
      then show ?thesis using nc(1) by simp
    qed
  next
    case False
    with g(2) have "(n, c) = g" by simp
    with g(1) c(2) have "(n, k', r') \<in> set (entries (caches_open reg name))"
      unfolding entries_iff by blast
    then show ?thesis by (simp add: caches_open_entries)
  qed
qed

lemma store_if_ok_entry:
  assumes "(n, k', r') \<in> set (entries (if ok r then open_put reg name k r else reg))"
  shows "(n, k', r') \<in> set (entries reg) \<or> ok r'"
proof (cases "ok r")
  case True
  with assms have "(n, k', r') \<in> set (entries reg) \<or> (n, k', r') = (name, k, r)"
    using open_put_entry by simp
  with True show ?thesis by auto
next
  case False
  with assms show ?thesis by simp
qed

lemma networkFirstWithTimeout_entry:
  "(n, k, r) \<in> set (entries (snd (networkFirstWithTimeout net reg req cacheName timeout)))
   \<Longrightarrow> (n, k, r) \<in> set (entries reg) \<or> ok r"
  by (auto simp: networkFirstWithTimeout_def split: promise.splits option.splits
      dest: store_if_ok_entry)

lemma updateCacheInBackground_entry:
  "(n, k, r) \<in> set (entries (updateCacheInBackground net reg req cacheName))
   \<Longrightarrow> (n, k, r) \<in> set (entries reg) \<or> ok r"
  by (auto simp: updateCacheInBackground_def split: promise.splits dest: store_if_ok_entry)

lemma cacheFirstWithNetworkFallback_entry:
  "(n, k, r) \<in> set (entries (snd (cacheFirstWithNetworkFallback net reg req cacheName)))
   \<Longrightarrow> (n, k, r) \<in> set (entries reg) \<or> ok r"
  by (auto simp: cacheFirstWithNetworkFallback_def split: promise.splits option.splits
      dest: store_if_ok_entry updateCacheInBackground_entry)

lemma networkFirstWithCacheFallback_entry:
  "(n, k, r) \<in> set (entries (snd (networkFirstWithCacheFallback net reg req cacheName)))
   \<Longrightarrow> (n, k, r) \<in> set (entries reg) \<or> ok r"
  by (auto simp: networkFirstWithCacheFallback_def split: promise.splits option.splits
      dest: store_if_ok_entry)

lemma catch_offline_snd: "snd (catch_offline base req res) = snd res"
  by (simp add: catch_offline_def split: promise.splits)

lemma handleRequest_entry:
  "(n, k, r) \<in> set (entries (snd (handleRequest net base reg req)))
   \<Longrightarrow> (n, k, r) \<in> set (entries reg) \<or> ok r"
  unfolding handleRequest_def catch_offline_snd handleRequest_try_def
  by (auto split: if_splits dest: networkFirstWithTimeout_entry
      cacheFirstWithNetworkFallback_entry networkFirstWithCacheFallback_entry)

text \<open>
  Claim C5. Whatever a fetch strategy, the background refresh or the whole request handler
  leaves in the storage is either an entry that was there before or a response whose
  status is successful; so a storage that holds successful responses only keeps holding
  successful responses only.
\<close>

theorem only_successful_responses_stored:
  assumes "reg' = snd (networkFirstWithTimeout net reg req cacheName timeout) \<or>
           reg' = snd (cacheFirstWithNetworkFallback net reg req cacheName) \<or>
           reg' = snd (networkFirstWithCacheFallback net reg req cacheName) \<or>
           reg' = updateCacheInBackground net reg req cacheName \<or>
           reg' = snd (handleRequest net base reg req)"
  shows "(\<forall>n k r. (n, k, r) \<in> set (entries reg') \<longrightarrow> (n, k, r) \<in> set (entries reg) \<or> ok r) \<and>
         (all_ok reg \<longrightarrow> all_ok reg')"
proof -
  have step: "(n, k, r) \<in> set (entries reg) \<or> ok r"
    if "(n, k, r) \<in> set (entries reg')" for n k r
    using assms that
    by (elim disjE)
      (simp_all add: networkFirstWithTimeout_entry cacheFirstWithNetworkFallback_entry
        networkFirstWithCacheFallback_entry updateCacheInBackground_entry handleRequest_entry)
  have "all_ok reg'" if inv: "all_ok reg"
    unfolding all_ok_def list_all_iff
  proof
    fix e assume e: "e \<in> set (entries reg')"
    obtain n k r where nkr: "e = (n, k, r)" by (cases e) auto
    from step e nkr have "(n, k, r) \<in> set (entries reg) \<or> ok r" by blast
    then show "ok (snd (snd e))"
      using inv nkr by (auto simp: all_ok_def list_all_iff)
  qed
  with step show ?thesis by blast
qed

theorem only_successful_responses_stored_witness:
  "snd (handleRequest (net_up r200) site [] img_req) = [(DYNAMIC_CACHE, [(url img_req, r200)])] \<and>
   ok r200 \<and> all_ok (snd (handleRequest (net_up r200) site [] img_req))"
proof -
  have t: "handleRequest_try (net_up r200) [] img_req =
           cacheFirstWithNetworkFallback (net_up r200) [] img_req DYNAMIC_CACHE"
    by (simp add: handleRequest_try_def img_req_def isAPIRequest_def NETWORK_FIRST_def
        isCDNRequest_def CACHE_FIRST_def isStaticAsset_def STATIC_ASSETS_def endsWith_def)
  have v: "snd (handleRequest (net_up r200) site [] img_req) = [(DYNAMIC_CACHE, [(url img_req, r200)])]"
    unfolding handleRequest_def catch_offline_snd t
    by (simp add: cacheFirstWithNetworkFallback_def fetch_def net_up_def ok_def r200_def
        open_put_def caches_open_def caches_keys_def cache_put_def)
  have m: "(DYNAMIC_CACHE, url img_req, r200) \<in> set (entries [(DYNAMIC_CACHE, [(url img_req, r200)])])"
    by (simp add: entries_def)
  have e: "all_ok []" by (simp add: all_ok_def entries_def)
  from only_successful_responses_stored
         [of "snd (handleRequest (net_up r200) site [] img_req)" "net_up r200" "[]" img_req
             DYNAMIC_CACHE 3000 site]
  have "(\<forall>n k r. (n, k, r) \<in> set (entries (snd (handleRequest (net_up r200) site [] img_req)))
            \<longrightarrow> (n, k, r) \<in> set (entries []) \<or> ok r) \<and>
        (all_ok [] \<longrightarrow> all_ok (snd (handleRequest (net_up r200) site [] img_req)))"
    by simp
  then have "ok r200" "all_ok (snd (handleRequest (net_up r200) site [] img_req))"
    using m e unfolding v by (auto simp: entries_def)
  with v show ?thesis by simp
qed

subsection \<open>Cache lookup and fallback\<close>


lemma caches_match_none:
  "caches_match reg k = None \<longleftrightarrow> (\<forall>g\<in>set reg. cache_match (snd g) k = None)"
  by (induction reg) (auto split: option.splits)

lemma caches_match_some:
  "caches_match reg k = Some r \<Longrightarrow> \<exists>g\<in>set reg. cache_match (snd g) k = Some r"
  by (induction reg) (auto split: option.splits)


lemma map_of_map_named:
  "map_of (map (\<lambda>g. if fst g = name then (fst g, h (snd g)) else g) xs) m =
     (if m = name then map_option h (map_of xs m) else map_of xs m)"
  by (induction xs) auto


lemma map_of_caches_open_other:
  "m \<noteq> name \<Longrightarrow> map_of (caches_open reg name) m = map_of reg m"
  by (auto simp: caches_open_def map_add_def split: option.splits)


lemma map_of_open_put:
  "map_of (open_put reg name k r) m =
     (if m = name then map_option (\<lambda>c. cache_put c k r) (map_of (caches_open reg name) m)
      else map_of (caches_open reg name) m)"
  unfolding open_put_def
  by (rule map_of_map_named [where h = "\<lambda>c. cache_put c k r"])


lemma generation_open_put_other:
  "m \<noteq> name \<Longrightarrow> generation (open_put reg name k r) m = generation reg m"
  by (simp add: generation_def map_of_open_put map_of_caches_open_other)

lemma generation_store_if_ok_other:
  "m \<noteq> name \<Longrightarrow> generation (if b then open_put reg name k r else reg) m = generation reg m"
  by (simp add: generation_open_put_other)










text \<open>
  Claim C4. When the network has not answered before the deadline (it answers later, it
  fails, or it never answers), the strategy settles all the same: with a cached copy of
  the request when some generation of the storage holds one, and with the error when none
  does. The storage is left as it was.
\<close>

theorem networkFirstWithTimeout_fallback:
  assumes "net (url req) = Silent \<or> (\<exists>t. net (url req) = Fails t) \<or>
           (\<exists>t r. net (url req) = Responds t r \<and> timeout \<le> t)"
  shows "((\<exists>g\<in>set reg. cache_match (snd g) (url req) \<noteq> None) \<longrightarrow>
            (\<exists>c. networkFirstWithTimeout net reg req cacheName timeout = (Resolved c, reg) \<and>
                 (\<exists>g\<in>set reg. cache_match (snd g) (url req) = Some c))) \<and>
         ((\<forall>g\<in>set reg. cache_match (snd g) (url req) = None) \<longrightarrow>
            (\<exists>e. networkFirstWithTimeout net reg req cacheName timeout = (Rejected e, reg)))"
proof -
  from assms have "\<exists>e. fetch_with_deadline net (url req) timeout = Rejected e"
    by (cases "net (url req)") (auto simp: fetch_with_deadline_def)
  then obtain e where rej: "fetch_with_deadline net (url req) timeout = Rejected e" ..
  show ?thesis
  proof (cases "caches_match reg (url req)")
    case None
    then have "\<forall>g\<in>set reg. cache_match (snd g) (url req) = None"
      by (simp add: caches_match_none)
    moreover have "networkFirstWithTimeout net reg req cacheName timeout = (Rejected e, reg)"
      using rej None by (simp add: networkFirstWithTimeout_def)
    ultimately show ?thesis by simp
  next
    case (Some c)
    then have hit: "\<exists>g\<in>set reg. cache_match (snd g) (url req) = Some c"
      by (rule caches_match_some)
    moreover have "networkFirstWithTimeout net reg req cacheName timeout = (Resolved c, reg)"
      using rej Some by (simp add: networkFirstWithTimeout_def)
    ultimately show ?thesis by auto
  qed
qed

theorem networkFirstWithTimeout_fallback_witness:
  "networkFirstWithTimeout (net_slow r200) [(API_CACHE, [(url api_req, r_old)])] api_req API_CACHE 3000
     = (Resolved r_old, [(API_CACHE, [(url api_req, r_old)])]) \<and>
   networkFirstWithTimeout (net_slow r200) [(API_CACHE, [])] api_req API_CACHE 3000
     = (Rejected AbortError, [(API_CACHE, [])])"
proof -
  have slow: "net_slow r200 (url api_req) = Silent \<or> (\<exists>t. net_slow r200 (url api_req) = Fails t) \<or>
           (\<exists>t r. net_slow r200 (url api_req) = Responds t r \<and> 3000 \<le> t)"
    by (simp add: net_slow_def)
  have hit: "\<exists>g\<in>set [(API_CACHE, [(url api_req, r_old)])]. cache_match (snd g) (url api_req) \<noteq> None"
    by (simp add: cache_match_def)
  have miss: "\<forall>g\<in>set [(API_CACHE, [])]. cache_match (snd g) (url api_req) = None"
    by (simp add: cache_match_def)
  from networkFirstWithTimeout_fallback
         [of "net_slow r200" api_req 3000 "[(API_CACHE, [(url api_req, r_old)])]" API_CACHE] slow hit
  have a: "networkFirstWithTimeout (net_slow r200) [(API_CACHE, [(url api_req, r_old)])] api_req API_CACHE 3000
     = (Resolved r_old, [(API_CACHE, [(url api_req, r_old)])])"
    by (auto simp: cache_match_def)
  from networkFirstWithTimeout_fallback
         [of "net_slow r200" api_req 3000 "[(API_CACHE, [])]" API_CACHE] slow miss
  obtain e where b: "networkFirstWithTimeout (net_slow r200) [(API_CACHE, [])] api_req API_CACHE 3000
     = (Rejected e, [(API_CACHE, [])])"
    by blast
  have "fst (networkFirstWithTimeout (net_slow r200) [(API_CACHE, [])] api_req API_CACHE 3000)
     = Rejected AbortError"
    by (simp add: networkFirstWithTimeout_def fetch_with_deadline_def net_slow_def cache_match_def)
  with b have "e = AbortError" by simp
  with a b show ?thesis by simp
qed

subsection \<open>Offline fallback\<close>

lemma fetch_settles: "net u \<noteq> Silent \<Longrightarrow> fetch net u \<noteq> Pending"
  by (cases "net u") (simp_all add: fetch_def)

lemma fetch_with_deadline_settles: "fetch_with_deadline net u timeout \<noteq> Pending"
  by (cases "net u") (simp_all add: fetch_with_deadline_def)

lemma handleRequest_try_rejected:
  "fst (handleRequest_try net reg req) = Rejected e \<Longrightarrow> snd (handleRequest_try net reg req) = reg"
  by (auto simp: handleRequest_try_def networkFirstWithTimeout_def
      cacheFirstWithNetworkFallback_def networkFirstWithCacheFallback_def
      split: if_splits promise.splits option.splits)

lemma handleRequest_try_settles:
  assumes "net (url req) \<noteq> Silent"
  shows "fst (handleRequest_try net reg req) \<noteq> Pending"
  using fetch_settles [of net "url req"] assms fetch_with_deadline_settles [of net "url req" 3000]
  by (auto simp: handleRequest_try_def networkFirstWithTimeout_def
      cacheFirstWithNetworkFallback_def networkFirstWithCacheFallback_def
      split: if_splits promise.splits option.splits)

lemma catch_offline_not_rejected: "fst (catch_offline base req res) \<noteq> Rejected e"
  by (cases res; cases "fst res") (auto simp: catch_offline_def)

lemma catch_offline_pending: "fst (catch_offline base req res) = Pending \<Longrightarrow> fst res = Pending"
  by (cases res; cases "fst res") (auto simp: catch_offline_def)

lemma img_req_try: "handleRequest_try net_down [] img_req = (Rejected TypeError, [])"
  by (simp add: handleRequest_try_def img_req_def isAPIRequest_def NETWORK_FIRST_def
      isCDNRequest_def CACHE_FIRST_def isStaticAsset_def STATIC_ASSETS_def endsWith_def
      cacheFirstWithNetworkFallback_def fetch_def net_down_def)

text \<open>
  Claim C6, as stated, fails: a request for an image whose network fails while the storage
  is empty is answered with the offline page, although it is no document navigation.
\<close>

theorem offline_page_for_image_counterexample:
  "destination img_req = ''image'' \<and>
   fetch net_down (url img_req) = Rejected TypeError \<and>
   caches_match [] (url img_req) = None \<and>
   handleRequest net_down site [] img_req = (Resolved offline_page, [])"
  by (simp add: handleRequest_def img_req_try catch_offline_def getOfflineFallback_def)
     (simp add: img_req_def fetch_def net_down_def)

lemma handleRequest_try_answer:
  "fst (handleRequest_try net reg req) =
     (if network_first req
      then (case network_answer net req of
              Resolved r \<Rightarrow> Resolved r
            | Rejected e \<Rightarrow>
                (case caches_match reg (url req) of
                   Some c \<Rightarrow> Resolved c
                 | None \<Rightarrow> Rejected e)
            | Pending \<Rightarrow> Pending)
      else (case caches_match reg (url req) of
              Some c \<Rightarrow> Resolved c
            | None \<Rightarrow> network_answer net req))"
  by (simp add: handleRequest_try_def network_first_def network_answer_def
      networkFirstWithTimeout_def cacheFirstWithNetworkFallback_def
      networkFirstWithCacheFallback_def
      split: promise.splits option.splits)

lemma handleRequest_unfold:
  "handleRequest net base reg req =
     (case fst (handleRequest_try net reg req) of
        Rejected e \<Rightarrow> (Resolved (getOfflineFallback base reg req), reg)
      | Resolved r \<Rightarrow> handleRequest_try net reg req
      | Pending \<Rightarrow> handleRequest_try net reg req)"
proof (cases "fst (handleRequest_try net reg req)")
  case (Rejected e)
  with handleRequest_try_rejected [OF Rejected] show ?thesis
    by (simp add: handleRequest_def catch_offline_def)
qed (simp_all add: handleRequest_def catch_offline_def)

lemma both_fail_iff:
  "(\<exists>e. fst (handleRequest_try net reg req) = Rejected e) =
   ((\<exists>e. network_answer net req = Rejected e) \<and> caches_match reg (url req) = None)"
  unfolding handleRequest_try_answer
  by (cases "network_answer net req"; cases "caches_match reg (url req)") auto

text \<open>
  Claim C6, amended. The handler never answers with an error, and it answers with a
  response whenever the network settles. The answer is the network's response when the
  network answers and the request is served network-first or has no cached copy; it is
  the cached copy when there is one and the request is served cache-first or the network
  fails. The fallback is taken exactly when the network fails and no generation holds a
  copy, the storage staying as it was: for a document request the answer is then the
  cached copy of the site's root if the storage holds one and the offline page
  otherwise; for any other request it is the offline page as well.
\<close>

theorem handleRequest_answer:
  "(\<forall>e. fst (handleRequest net base reg req) \<noteq> Rejected e) \<and>
   (net (url req) \<noteq> Silent \<longrightarrow> (\<exists>r. fst (handleRequest net base reg req) = Resolved r)) \<and>
   (network_answer net req = Resolved r \<and>
      (network_first req \<or> caches_match reg (url req) = None) \<longrightarrow>
      fst (handleRequest net base reg req) = Resolved r) \<and>
   (caches_match reg (url req) = Some c \<and>
      (\<not> network_first req \<or> (\<exists>e. network_answer net req = Rejected e)) \<longrightarrow>
      fst (handleRequest net base reg req) = Resolved c) \<and>
   ((\<exists>e. fst (handleRequest_try net reg req) = Rejected e) =
      ((\<exists>e. network_answer net req = Rejected e) \<and> caches_match reg (url req) = None)) \<and>
   ((\<exists>e. network_answer net req = Rejected e) \<and> caches_match reg (url req) = None \<and>
      destination req \<noteq> ''document'' \<longrightarrow>
      handleRequest net base reg req = (Resolved offline_page, reg)) \<and>
   ((\<exists>e. network_answer net req = Rejected e) \<and> caches_match reg (url req) = None \<and>
      destination req = ''document'' \<longrightarrow>
      handleRequest net base reg req =
        (Resolved (case caches_match reg (resolve base ''/'') of
                     Some cachedIndex \<Rightarrow> cachedIndex
                   | None \<Rightarrow> offline_page), reg)) \<and>
   (network_answer net req = Pending \<and>
      (network_first req \<or> caches_match reg (url req) = None) \<longrightarrow>
      fst (handleRequest net base reg req) = Pending)"
proof (intro conjI allI impI)
  fix e show "fst (handleRequest net base reg req) \<noteq> Rejected e"
    by (simp add: handleRequest_def catch_offline_not_rejected)
next
  assume live: "net (url req) \<noteq> Silent"
  have "fst (handleRequest net base reg req) \<noteq> Pending"
    using handleRequest_try_settles [of net req reg] live catch_offline_pending
    unfolding handleRequest_def by blast
  moreover have "fst (handleRequest net base reg req) \<noteq> Rejected e" for e
    by (simp add: handleRequest_def catch_offline_not_rejected)
  ultimately show "\<exists>r. fst (handleRequest net base reg req) = Resolved r"
    by (cases "fst (handleRequest net base reg req)") auto
next
  assume "network_answer net req = Resolved r \<and>
          (network_first req \<or> caches_match reg (url req) = None)"
  then have "fst (handleRequest_try net reg req) = Resolved r"
    by (auto simp: handleRequest_try_answer)
  then show "fst (handleRequest net base reg req) = Resolved r"
    by (simp add: handleRequest_unfold)
next
  assume "caches_match reg (url req) = Some c \<and>
          (\<not> network_first req \<or> (\<exists>e. network_answer net req = Rejected e))"
  then have "fst (handleRequest_try net reg req) = Resolved c"
    by (auto simp: handleRequest_try_answer)
  then show "fst (handleRequest net base reg req) = Resolved c"
    by (simp add: handleRequest_unfold)
next
  show "(\<exists>e. fst (handleRequest_try net reg req) = Rejected e) =
        ((\<exists>e. network_answer net req = Rejected e) \<and> caches_match reg (url req) = None)"
    by (rule both_fail_iff)
next
  assume h: "(\<exists>e. network_answer net req = Rejected e) \<and> caches_match reg (url req) = None \<and>
             destination req \<noteq> ''document''"
  then have "\<exists>e. fst (handleRequest_try net reg req) = Rejected e"
    by (simp add: both_fail_iff)
  then obtain e where "fst (handleRequest_try net reg req) = Rejected e" ..
  with h show "handleRequest net base reg req = (Resolved offline_page, reg)"
    by (simp add: handleRequest_unfold getOfflineFallback_def)
next
  assume h: "(\<exists>e. network_answer net req = Rejected e) \<and> caches_match reg (url req) = None \<and>
             destination req = ''document''"
  then have "\<exists>e. fst (handleRequest_try net reg req) = Rejected e"
    by (simp add: both_fail_iff)
  then obtain e where "fst (handleRequest_try net reg req) = Rejected e" ..
  with h show "handleRequest net base reg req =
        (Resolved (case caches_match reg (resolve base ''/'') of
                     Some cachedIndex \<Rightarrow> cachedIndex
                   | None \<Rightarrow> offline_page), reg)"
    by (simp add: handleRequest_unfold getOfflineFallback_def)
next
  assume "network_answer net req = Pending \<and>
          (network_first req \<or> caches_match reg (url req) = None)"
  then have "fst (handleRequest_try net reg req) = Pending"
    by (auto simp: handleRequest_try_answer)
  then show "fst (handleRequest net base reg req) = Pending"
    by (simp add: handleRequest_unfold)
qed

lemma img_req_routing:
  "\<not> network_first img_req"
  "network_answer net img_req = fetch net (url img_req)"
  by (simp_all add: network_first_def network_answer_def img_req_def isAPIRequest_def
      NETWORK_FIRST_def)

lemma page_nav_req_routing:
  "network_first page_nav_req"
  "network_answer net page_nav_req = fetch net page_url"
  by (simp_all add: network_first_def network_answer_def page_nav_req_def page_url_def
      isAPIRequest_def NETWORK_FIRST_def isCDNRequest_def CACHE_FIRST_def isStaticAsset_def
      STATIC_ASSETS_def endsWith_def)

theorem handleRequest_answer_witness:
  "handleRequest net_down site [] img_req = (Resolved offline_page, []) \<and>
   handleRequest net_down site [(STATIC_CACHE, [(resolve site ''/'', r_old)])] page_nav_req
     = (Resolved r_old, [(STATIC_CACHE, [(resolve site ''/'', r_old)])]) \<and>
   fst (handleRequest (net_up r200) site [] img_req) = Resolved r200 \<and>
   fst (handleRequest net_down site [(DYNAMIC_CACHE, [(page_url, r_old)])] page_nav_req)
     = Resolved r_old"
proof -
  have down: "fetch net_down u = Rejected TypeError" for u
    by (simp add: fetch_def net_down_def)
  have up: "fetch (net_up r200) u = Resolved r200" for u
    by (simp add: fetch_def net_up_def)
  have d1: "destination img_req \<noteq> ''document''" by (simp add: img_req_def)
  have d2: "destination page_nav_req = ''document''" by (simp add: page_nav_req_def)
  have u2: "url page_nav_req = page_url" by (simp add: page_nav_req_def)
  have m2: "caches_match [(STATIC_CACHE, [(resolve site ''/'', r_old)])] page_url = None"
    by (simp add: cache_match_def resolve_def site_def page_url_def)
  have m3: "caches_match [(STATIC_CACHE, [(resolve site ''/'', r_old)])] (resolve site ''/'')
            = Some r_old"
    by (simp add: cache_match_def)
  have m4: "caches_match [(DYNAMIC_CACHE, [(page_url, r_old)])] page_url = Some r_old"
    by (simp add: cache_match_def)
  have a: "handleRequest net_down site [] img_req = (Resolved offline_page, [])"
    using handleRequest_answer [of net_down site "[]" img_req] img_req_routing(2) [of net_down]
      down d1
    by simp
  have b: "handleRequest net_down site [(STATIC_CACHE, [(resolve site ''/'', r_old)])] page_nav_req
           = (Resolved r_old, [(STATIC_CACHE, [(resolve site ''/'', r_old)])])"
    using handleRequest_answer
            [of net_down site "[(STATIC_CACHE, [(resolve site ''/'', r_old)])]" page_nav_req]
      page_nav_req_routing(2) [of net_down] down d2 u2 m2 m3
    by simp
  have c: "fst (handleRequest (net_up r200) site [] img_req) = Resolved r200"
    using handleRequest_answer [of "net_up r200" site "[]" img_req r200]
      img_req_routing(2) [of "net_up r200"] up
    by simp
  have d: "fst (handleRequest net_down site [(DYNAMIC_CACHE, [(page_url, r_old)])] page_nav_req)
           = Resolved r_old"
    using handleRequest_answer
            [of net_down site "[(DYNAMIC_CACHE, [(page_url, r_old)])]" page_nav_req _ r_old]
      page_nav_req_routing(2) [of net_down] down u2 m4
    by simp
  from a b c d show ?thesis by simp
qed

subsection \<open>Installation\<close>

lemma cache_addAll_failed:
  assumes "a \<in> set assets" "fetch_failed (fetch net (resolve base a))"
  shows "cache_addAll net base c assets = (Rejected TypeError, c)"
proof -
  have "list_ex (\<lambda>kp. fetch_failed (snd kp))
          (map (\<lambda>a. (resolve base a, fetch net (resolve base a))) assets)"
    unfolding list_ex_iff using assms by force
  then show ?thesis
    by (simp add: cache_addAll_def Let_def)
qed

lemma install_failed:
  assumes "a \<in> set STATIC_ASSETS" "fetch_failed (fetch net (resolve base a))"
  shows "install net base reg =
           \<lparr>waitUntil = Resolved (), skipWaiting = False,
            caches_after = caches_open reg STATIC_CACHE\<rparr>"
  by (simp add: install_def Let_def cache_addAll_failed [OF assms])

lemma main_js_missing:
  "''/assets/js/main.js'' \<in> set STATIC_ASSETS"
  "fetch net_one_missing (resolve site ''/assets/js/main.js'') = Rejected TypeError"
  by (simp_all add: STATIC_ASSETS_def fetch_def net_one_missing_def resolve_def site_def)

text \<open>
  Claim C3, as stated, fails: with one asset of the manifest unreachable, the promise the
  install listener hands to the platform resolves, so the install attempt completes and
  the worker is installed; no entry has been stored.
\<close>

theorem install_one_unreachable_counterexample:
  "''/assets/js/main.js'' \<in> set STATIC_ASSETS \<and>
   fetch net_one_missing (resolve site ''/assets/js/main.js'') = Rejected TypeError \<and>
   waitUntil (install net_one_missing site []) = Resolved () \<and>
   state_after_install (waitUntil (install net_one_missing site [])) = Installed \<and>
   caches_after (install net_one_missing site []) = [(STATIC_CACHE, [])]"
proof -
  have "fetch_failed (fetch net_one_missing (resolve site ''/assets/js/main.js''))"
    by (simp add: main_js_missing(2) fetch_failed_def)
  from install_failed [OF main_js_missing(1) this, of "[]"] main_js_missing
  show ?thesis
    by (simp add: state_after_install_def caches_open_def caches_keys_def)
qed

text \<open>
  Claim C3, amended. When an asset of the manifest fails to fetch (the fetch rejects or
  the response is unsuccessful), nothing is committed: the storage afterwards is the
  storage before with the static generation opened, empty if it was absent, and every
  entry of every generation as it was; the worker does not call \<^verbatim>\<open>skipWaiting\<close>, so
  it does not take over by force. The install attempt itself is not failed: the error is
  logged and swallowed, and the promise handed to the platform resolves.
\<close>

theorem install_all_or_nothing:
  assumes "a \<in> set STATIC_ASSETS" "fetch_failed (fetch net (resolve base a))"
  shows "install net base reg =
           \<lparr>waitUntil = Resolved (), skipWaiting = False,
            caches_after = caches_open reg STATIC_CACHE\<rparr> \<and>
         entries (caches_after (install net base reg)) = entries reg \<and>
         state_after_install (waitUntil (install net base reg)) = Installed"
  by (simp add: install_failed [OF assms] caches_open_entries state_after_install_def)

theorem install_all_or_nothing_witness:
  "install net_one_missing site [(''static-v1.0.0'', [(resolve site ''/'', r_old)])] =
     \<lparr>waitUntil = Resolved (), skipWaiting = False,
      caches_after = [(''static-v1.0.0'', [(resolve site ''/'', r_old)]), (STATIC_CACHE, [])]\<rparr> \<and>
   entries (caches_after (install net_one_missing site
      [(''static-v1.0.0'', [(resolve site ''/'', r_old)])]))
     = [(''static-v1.0.0'', resolve site ''/'', r_old)]"
proof -
  have f: "fetch_failed (fetch net_one_missing (resolve site ''/assets/js/main.js''))"
    by (simp add: main_js_missing(2) fetch_failed_def)
  have o: "caches_open [(''static-v1.0.0'', [(resolve site ''/'', r_old)])] STATIC_CACHE
           = [(''static-v1.0.0'', [(resolve site ''/'', r_old)]), (STATIC_CACHE, [])]"
    by (simp add: caches_open_def caches_keys_def STATIC_CACHE_def)
  have e: "entries [(''static-v1.0.0'', [(resolve site ''/'', r_old)])]
           = [(''static-v1.0.0'', resolve site ''/'', r_old)]"
    by (simp add: entries_def)
  from install_all_or_nothing
         [OF main_js_missing(1) f, of "[(''static-v1.0.0'', [(resolve site ''/'', r_old)])]"]
  show ?thesis
    by (simp add: o e entries_def)
qed

section \<open>Properties of the relay\<close>

lemma format_msg_contains:
  "\<exists>a b c. format_msg data = a @ toString (data ''name'') @ b @ toString (data ''url'') @ c"
  unfolding format_msg_def by blast

text \<open>
  Claim C8. A POST whose JSON body carries a name, a url (both present, that is, not
  empty) and the push type \<^verbatim>\<open>telegram\<close>, with the bot token and the chat id
  configured and the Telegram call answered successfully, makes exactly one outbound
  call: a POST to the send-message endpoint of the bot, whose text contains the name and
  the url; the relay answers 200 with \<^verbatim>\<open>{"ok":true}\<close>.
\<close>

theorem relay_telegram_success:
  assumes "req_method request = ''POST''"
    and "req_json request = JsonValue data"
    and "truthy (data ''name'')" and "truthy (data ''url'')"
    and "data ''pushType'' = JString ''telegram''"
    and "TG_BOT_TOKEN e = Some token" and "token \<noteq> []"
    and "TG_CHAT_ID e = Some chat" and "chat \<noteq> []"
    and "call = \<lparr>out_url = ''https://api.telegram.org/bot'' @ token @ ''/sendMessage'',
                  out_method = ''POST'',
                  out_headers = [(''Content-Type'', ''application/json'')],
                  out_body = TelegramMessage chat (format_msg data)\<rparr>"
    and "up call = Resolved r" and "ok r"
  shows "relay_fetch up e request = (Responded (corsResponse (Some ok_true_json) 200), [call]) \<and>
         (\<exists>a b c. format_msg data = a @ toString (data ''name'') @ b @ toString (data ''url'') @ c)"
proof -
  have "relay_fetch up e request = (push_outcome (up call), [call])"
    using assms(1-10)
    by (simp add: relay_fetch_def missing_def env_string_def Let_def)
  then show ?thesis
    using assms(11,12) format_msg_contains by (simp add: push_outcome_def)
qed

theorem relay_telegram_success_witness:
  "relay_fetch up_ok env_telegram (post_blog ''telegram'') =
     (Responded \<lparr>cors_body = Some [CHR ''{'', CHR 0x22, CHR ''o'', CHR ''k'', CHR 0x22, CHR '':'',
                                   CHR ''t'', CHR ''r'', CHR ''u'', CHR ''e'', CHR ''}''],
                 cors_status = 200,
                 cors_headers =
                   [(''Access-Control-Allow-Origin'', ''*''),
                    (''Access-Control-Allow-Methods'', ''POST, OPTIONS''),
                    (''Access-Control-Allow-Headers'', ''Content-Type'')]\<rparr>,
      [\<lparr>out_url = ''https://api.telegram.org/bot123:abc/sendMessage'',
        out_method = ''POST'',
        out_headers = [(''Content-Type'', ''application/json'')],
        out_body = TelegramMessage ''42''
          (msg_head @ ''Blog'' @ msg_link @ ''https://x.example'' @ msg_logo @ none_text @
           msg_desc @ none_text)\<rparr>])"
proof -
  have f: "format_msg (blog_form ''telegram'') =
           msg_head @ ''Blog'' @ msg_link @ ''https://x.example'' @ msg_logo @ none_text @
           msg_desc @ none_text"
    by (simp add: format_msg_def blog_form_def or_js_def undefined_js_def)
  from relay_telegram_success
    [of "post_blog ''telegram''" "blog_form ''telegram''" env_telegram "''123:abc''" "''42''"
        _ up_ok r200, OF _ _ _ _ _ _ _ _ _ refl]
  show ?thesis
    by (simp add: post_blog_def blog_form_def env_telegram_def up_ok_def ok_def r200_def f
        corsResponse_def ok_true_json_def)
qed

text \<open>
  Claim C9. A POST whose JSON body carries a name, a url and the push type
  \<^verbatim>\<open>feishu\<close>, while \<^verbatim>\<open>FEISHU_WEBHOOK\<close> is unset (or empty), is answered 500 with the
  configuration-missing message, and no outbound call is made.
\<close>

theorem relay_feishu_unconfigured:
  assumes "req_method request = ''POST''"
    and "req_json request = JsonValue data"
    and "truthy (data ''name'')" and "truthy (data ''url'')"
    and "data ''pushType'' = JString ''feishu''"
    and "missing (FEISHU_WEBHOOK e)"
  shows "relay_fetch up e request = (Responded (corsResponse (Some feishu_config_missing) 500), [])"
  using assms by (simp add: relay_fetch_def)

theorem relay_feishu_unconfigured_witness:
  "FEISHU_WEBHOOK env_telegram = None \<and>
   relay_fetch up_ok env_telegram (post_blog ''feishu'') =
     (Responded (corsResponse (Some feishu_config_missing) 500), []) \<and>
   cors_status (corsResponse (Some feishu_config_missing) 500) = 500"
proof -
  from relay_feishu_unconfigured
    [of "post_blog ''feishu''" "blog_form ''feishu''" env_telegram up_ok]
  show ?thesis
    by (simp add: post_blog_def blog_form_def env_telegram_def missing_def corsResponse_def)
qed

end
